theory Spec2Isabelle
  imports Complex_Main "HOL-Library.Sublist"
begin

section \<open>JavaScript strings and values\<close>

text \<open>
  The task client (\<^verbatim>\<open>api/tasks.js\<close>) and the handlers of \<^verbatim>\<open>App.js\<close> are
  embedded as HOL functions.  A JavaScript string is a \<^typ>\<open>string\<close>: a list of code
  units below 256.  The string methods the client calls are written out on that range.
\<close>

text \<open>\<^verbatim>\<open>String.prototype.toLowerCase\<close> and \<^verbatim>\<open>toUpperCase\<close> on the ASCII letters.
  The client lowers a header value only to search it for ASCII needles, and raises only
  the method names it passes itself, so the letters outside ASCII play no part.\<close>

definition char_to_lower :: "char \<Rightarrow> char" where
  "char_to_lower c =
     (if 65 \<le> (of_char c :: nat) \<and> (of_char c :: nat) \<le> 90
      then char_of ((of_char c :: nat) + 32) else c)"

definition char_to_upper :: "char \<Rightarrow> char" where
  "char_to_upper c =
     (if 97 \<le> (of_char c :: nat) \<and> (of_char c :: nat) \<le> 122
      then char_of ((of_char c :: nat) - 32) else c)"

definition toLowerCase :: "string \<Rightarrow> string" where
  "toLowerCase s = map char_to_lower s"

definition toUpperCase :: "string \<Rightarrow> string" where
  "toUpperCase s = map char_to_upper s"

text \<open>\<^verbatim>\<open>s.includes(sub)\<close>: \<open>sub\<close> occurs in \<open>s\<close> as a contiguous block.\<close>

fun js_includes :: "string \<Rightarrow> string \<Rightarrow> bool" where
  "js_includes [] sub = (sub = [])"
| "js_includes (c # cs) sub = (prefix sub (c # cs) \<or> js_includes cs sub)"

text \<open>\<^verbatim>\<open>s.startsWith(p)\<close>.\<close>

definition startsWith :: "string \<Rightarrow> string \<Rightarrow> bool" where
  "startsWith s p = prefix p s"

text \<open>\<^verbatim>\<open>s.trim()\<close>: the white space and line terminators of ECMAScript among the
  code units below 256 are TAB, LF, VT, FF, CR, SP and NBSP.\<close>

definition is_js_space :: "char \<Rightarrow> bool" where
  "is_js_space c = ((of_char c :: nat) \<in> {9, 10, 11, 12, 13, 32, 160})"

definition trim :: "string \<Rightarrow> string" where
  "trim s = rev (dropWhile is_js_space (rev (dropWhile is_js_space s)))"

text \<open>A number in a template literal: the decimal digits of a natural number, and a
  leading minus sign for a negative integer (the form JavaScript prints for an integer
  of fewer than 22 digits).\<close>

fun digits_of_nat :: "nat \<Rightarrow> string" where
  "digits_of_nat n =
     (if n < 10 then [char_of (48 + n)]
      else digits_of_nat (n div 10) @ [char_of (48 + n mod 10)])"

definition string_of_int :: "int \<Rightarrow> string" where
  "string_of_int i = (if i < 0 then CHR ''-'' # digits_of_nat (nat (- i)) else digits_of_nat (nat i))"

text \<open>\<^verbatim>\<open>a || b\<close> on a value that is a string or absent (\<^verbatim>\<open>undefined\<close>, \<^verbatim>\<open>null\<close>):
  the absent value and the empty string are falsy.\<close>

definition or_else :: "string option \<Rightarrow> string \<Rightarrow> string" where
  "or_else a b = (case a of None \<Rightarrow> b | Some s \<Rightarrow> if s = [] then b else s)"

text \<open>A JavaScript value as \<^verbatim>\<open>Response.json()\<close> produces it.  A number is the
  rational it denotes; an object is the list of its own properties in insertion order,
  each key once.\<close>

datatype json =
    JNull
  | JBool bool
  | JNum rat
  | JStr string
  | JArr "json list"
  | JObj "(string \<times> json) list"

text \<open>\<^verbatim>\<open>typeof v === "string"\<close>.\<close>

fun typeof_string :: "json \<Rightarrow> bool" where
  "typeof_string (JStr s) = True"
| "typeof_string v = False"

text \<open>ToBoolean.\<close>

fun truthy :: "json \<Rightarrow> bool" where
  "truthy JNull = False"
| "truthy (JBool b) = b"
| "truthy (JNum r) = (r \<noteq> 0)"
| "truthy (JStr s) = (s \<noteq> [])"
| "truthy (JArr vs) = True"
| "truthy (JObj kvs) = True"

text \<open>\<^verbatim>\<open>v.key\<close> on a value other than \<^verbatim>\<open>null\<close>, for a key that no prototype
  defines (the client reads \<^verbatim>\<open>__parse_error\<close> only): \<open>None\<close> is
  \<^verbatim>\<open>undefined\<close>.\<close>

fun get_prop :: "json \<Rightarrow> string \<Rightarrow> json option" where
  "get_prop (JObj kvs) k = map_of kvs k"
| "get_prop v k = None"

section \<open>Base URL\<close>

text \<open>\<^verbatim>\<open>process.env\<close>: a variable is a string or absent.\<close>

type_synonym env = "string \<rightharpoonup> string"

text \<open>\<^verbatim>\<open>s.replace(/\/$/, "")\<close>: the pattern matches one slash at the end of the
  input, and the first match is removed.\<close>

definition strip_trailing_slash :: "string \<Rightarrow> string" where
  "strip_trailing_slash s = (if s \<noteq> [] \<and> last s = CHR ''/'' then butlast s else s)"

definition API_BASE :: "env \<Rightarrow> string" where
  "API_BASE env =
     strip_trailing_slash
       (or_else (env ''REACT_APP_API_BASE'') (or_else (env ''REACT_APP_API_BASE_URL'') []))"

definition url :: "env \<Rightarrow> string \<Rightarrow> string" where
  "url env path = API_BASE env @ path"

section \<open>The platform: \<^verbatim>\<open>fetch\<close>, \<^verbatim>\<open>Response\<close>, \<^verbatim>\<open>JSON.stringify\<close>\<close>

text \<open>What the client throws: \<^verbatim>\<open>new Error(message)\<close> of its own, or whatever
  \<^verbatim>\<open>fetch\<close> rejected with (kept with its \<^verbatim>\<open>message\<close>).\<close>

datatype js_error = Error string | Rejected string

fun message :: "js_error \<Rightarrow> string" where
  "message (Error m) = m"
| "message (Rejected m) = m"

text \<open>A \<^verbatim>\<open>Response\<close> as the client sees it: \<^verbatim>\<open>res.status\<close>,
  \<^verbatim>\<open>res.headers.get("content-type")\<close> (\<open>None\<close> is \<^verbatim>\<open>null\<close>), what
  \<^verbatim>\<open>res.json()\<close> settles to (\<open>Inl\<close> a rejection \<open>e\<close>, kept as
  \<^verbatim>\<open>String(e)\<close>) and what the call of \<^verbatim>\<open>res.text()\<close> settles to (\<open>None\<close> a
  rejection).  The client calls \<^verbatim>\<open>res.text()\<close> at most once for a response.\<close>

record response =
  res_status :: nat
  res_content_type :: "string option"
  res_json :: "string + json"
  res_text :: "string option"

text \<open>\<^verbatim>\<open>res.ok\<close>: the Fetch standard sets it for a status from 200 to 299.\<close>

definition ok :: "response \<Rightarrow> bool" where
  "ok res = (200 \<le> res_status res \<and> res_status res \<le> 299)"

text \<open>The second argument of \<^verbatim>\<open>fetch\<close>.\<close>

record request_init =
  init_method :: "string option"
  init_headers :: "(string \<times> string) list"
  init_body :: "string option"

definition no_options :: request_init where
  "no_options = \<lparr>init_method = None, init_headers = [], init_body = None\<rparr>"

text \<open>The browser around the client: how the network answers a request, the global
  \<^verbatim>\<open>JSON.stringify\<close>, and the requests issued so far.\<close>

record browser =
  respond :: "string \<Rightarrow> request_init \<Rightarrow> js_error + response"
  JSON_stringify :: "json \<Rightarrow> string"
  sent :: "(string \<times> request_init) list"

definition fetch :: "string \<Rightarrow> request_init \<Rightarrow> browser \<Rightarrow> (js_error + response) \<times> browser" where
  "fetch u init b = (respond b u init, b\<lparr>sent := sent b @ [(u, init)]\<rparr>)"

section \<open>The task client\<close>

definition is_json_content_type :: "string \<Rightarrow> bool" where
  "is_json_content_type contentType =
     (js_includes contentType ''application/json'' \<or> js_includes contentType ''+json'')"

definition parse_error_value :: "string \<Rightarrow> string \<Rightarrow> json" where
  "parse_error_value text e =
     JObj [(''__parse_error'', JBool True), (''__raw'', JStr text), (''__error'', JStr e)]"

definition safeReadBody :: "response \<Rightarrow> json" where
  "safeReadBody res =
     (let contentType = toLowerCase (or_else (res_content_type res) [])
      in if is_json_content_type contentType then
           (case res_json res of
              Inr v \<Rightarrow> v
            | Inl e \<Rightarrow> parse_error_value (case res_text res of None \<Rightarrow> [] | Some t \<Rightarrow> t) e)
         else JStr (case res_text res of None \<Rightarrow> [] | Some t \<Rightarrow> t))"

definition html_hint :: string where
  "html_hint = ''Received HTML instead of JSON. Check API base URL configuration.''"

definition other_hint :: string where
  "other_hint = ''Unexpected response from server.''"

definition toHelpfulErrorMessage :: "string \<Rightarrow> string \<Rightarrow> nat \<Rightarrow> json \<Rightarrow> string" where
  "toHelpfulErrorMessage method path status body =
     (let hint =
        (case body of
           JStr s \<Rightarrow> if startsWith (trim s) ''<!DOCTYPE'' then html_hint else other_hint
         | _ \<Rightarrow> other_hint)
      in method @ '' '' @ path @ '' failed ('' @ digits_of_nat status @ ''). '' @ hint)"

text \<open>\<^verbatim>\<open>body && body.__parse_error\<close> as a condition.\<close>

definition has_parse_error :: "json \<Rightarrow> bool" where
  "has_parse_error body =
     (truthy body \<and>
      (case get_prop body ''__parse_error'' of None \<Rightarrow> False | Some flag \<Rightarrow> truthy flag))"

definition non_json_message :: "string \<Rightarrow> string \<Rightarrow> string" where
  "non_json_message method path =
     ''Unexpected non-JSON response for '' @ method @ '' '' @ path @
     ''. Check API base URL configuration.''"

definition invalid_json_message :: "string \<Rightarrow> string \<Rightarrow> string" where
  "invalid_json_message method path =
     ''Invalid JSON response for '' @ method @ '' '' @ path @
     ''. Check API base URL configuration.''"

text \<open>The part of \<^verbatim>\<open>requestJson\<close> after the response has arrived.\<close>

definition normalizeResponse :: "string \<Rightarrow> string \<Rightarrow> response \<Rightarrow> js_error + json" where
  "normalizeResponse method path res =
     (let body = safeReadBody res
      in if \<not> ok res then
           Inl (Error (toHelpfulErrorMessage method path (res_status res) body))
         else if typeof_string body then Inl (Error (non_json_message method path))
         else if has_parse_error body then Inl (Error (invalid_json_message method path))
         else Inr body)"

definition requestJson ::
  "env \<Rightarrow> string \<Rightarrow> request_init \<Rightarrow> browser \<Rightarrow> (js_error + json) \<times> browser" where
  "requestJson env path options b =
     (let method = toUpperCase (or_else (init_method options) ''GET'');
          (r, b') = fetch (url env path) options b
      in case r of
           Inl e \<Rightarrow> (Inl e, b')
         | Inr res \<Rightarrow> (normalizeResponse method path res, b'))"

definition json_headers :: "(string \<times> string) list" where
  "json_headers = [(''Content-Type'', ''application/json'')]"

definition listTasks :: "env \<Rightarrow> browser \<Rightarrow> (js_error + json) \<times> browser" where
  "listTasks env b = requestJson env ''/tasks'' no_options b"

definition createTask_options :: "browser \<Rightarrow> string \<Rightarrow> request_init" where
  "createTask_options b title =
     \<lparr>init_method = Some ''POST'', init_headers = json_headers,
      init_body = Some (JSON_stringify b (JObj [(''title'', JStr title)]))\<rparr>"

definition createTask :: "env \<Rightarrow> string \<Rightarrow> browser \<Rightarrow> (js_error + json) \<times> browser" where
  "createTask env title b = requestJson env ''/tasks'' (createTask_options b title) b"

definition updateTask_options :: "browser \<Rightarrow> json \<Rightarrow> request_init" where
  "updateTask_options b patch =
     \<lparr>init_method = Some ''PUT'', init_headers = json_headers,
      init_body = Some (JSON_stringify b patch)\<rparr>"

definition updateTask :: "env \<Rightarrow> int \<Rightarrow> json \<Rightarrow> browser \<Rightarrow> (js_error + json) \<times> browser" where
  "updateTask env taskId patch b =
     requestJson env (''/tasks/'' @ string_of_int taskId) (updateTask_options b patch) b"

definition toggleTask_options :: request_init where
  "toggleTask_options = \<lparr>init_method = Some ''POST'', init_headers = [], init_body = None\<rparr>"

definition toggleTask :: "env \<Rightarrow> int \<Rightarrow> browser \<Rightarrow> (js_error + json) \<times> browser" where
  "toggleTask env taskId b =
     requestJson env (''/tasks/'' @ string_of_int taskId @ ''/toggle'') toggleTask_options b"

definition deleteTask_options :: request_init where
  "deleteTask_options = \<lparr>init_method = Some ''DELETE'', init_headers = [], init_body = None\<rparr>"

text \<open>\<^verbatim>\<open>deleteTask\<close> resolves to \<^verbatim>\<open>undefined\<close>: the unit value.\<close>

definition deleteTask :: "env \<Rightarrow> int \<Rightarrow> browser \<Rightarrow> (js_error + unit) \<times> browser" where
  "deleteTask env taskId b =
     (let (r, b') = fetch (url env (''/tasks/'' @ string_of_int taskId)) deleteTask_options b
      in case r of
           Inl e \<Rightarrow> (Inl e, b')
         | Inr res \<Rightarrow>
             if \<not> ok res then
               (Inl (Error (toHelpfulErrorMessage ''DELETE'' (''/tasks/'' @ string_of_int taskId)
                              (res_status res) (safeReadBody res))), b')
             else (Inr (), b'))"

section \<open>The handlers of the App component\<close>

text \<open>The App keeps the values the client returns as Task objects
  \<^verbatim>\<open>{id, title, is_completed}\<close> and reads these three fields only.\<close>

record task =
  task_id :: int
  task_title :: string
  task_is_completed :: bool

text \<open>The comparator of \<^verbatim>\<open>sortTasks\<close>: completed tasks last, then the larger
  identifier first.\<close>

definition compare_tasks :: "task \<Rightarrow> task \<Rightarrow> int" where
  "compare_tasks a b =
     (if task_is_completed a \<noteq> task_is_completed b
      then (if task_is_completed a then 1 else - 1)
      else task_id b - task_id a)"

text \<open>\<^verbatim>\<open>Array.prototype.sort\<close> is stable: an element goes before the first one
  it does not compare greater than.\<close>

fun insert_by :: "('a \<Rightarrow> 'a \<Rightarrow> int) \<Rightarrow> 'a \<Rightarrow> 'a list \<Rightarrow> 'a list" where
  "insert_by cmp x [] = [x]"
| "insert_by cmp x (y # ys) = (if cmp x y \<le> 0 then x # y # ys else y # insert_by cmp x ys)"

definition sortTasks :: "task list \<Rightarrow> task list" where
  "sortTasks ts = foldr (insert_by compare_tasks) ts []"

text \<open>The state of the component, one field for each \<^verbatim>\<open>useState\<close>.\<close>

record ui =
  tasks :: "task list"
  newTitle :: string
  loading :: bool
  error :: string
  editingId :: "int option"
  editingTitle :: string

definition cancelEdit :: "ui \<Rightarrow> ui" where
  "cancelEdit st = st\<lparr>editingId := None, editingTitle := []\<rparr>"

text \<open>A handler runs from its call to the end of its \<^verbatim>\<open>try\<close> or \<^verbatim>\<open>catch\<close>
  block.  The operation it awaits is the import from \<^verbatim>\<open>./api/tasks\<close>, given as
  the function from the arguments to the settled outcome; \<^verbatim>\<open>e.message || fallback\<close>
  in the \<^verbatim>\<open>catch\<close> block is \<^const>\<open>or_else\<close>.\<close>

definition handleAdd :: "(string \<Rightarrow> js_error + task) \<Rightarrow> ui \<Rightarrow> ui" where
  "handleAdd createTask_op st =
     (let title = trim (newTitle st)
      in if title = [] then st
         else
           (let st1 = st\<lparr>error := []\<rparr>
            in case createTask_op title of
                 Inr created \<Rightarrow> st1\<lparr>tasks := sortTasks (created # tasks st1), newTitle := []\<rparr>
               | Inl e \<Rightarrow> st1\<lparr>error := or_else (Some (message e)) ''Failed to create task.''\<rparr>))"

definition handleToggle :: "(int \<Rightarrow> js_error + task) \<Rightarrow> int \<Rightarrow> ui \<Rightarrow> ui" where
  "handleToggle toggleTask_op taskId st =
     (let st1 = st\<lparr>error := []\<rparr>
      in case toggleTask_op taskId of
           Inr updated \<Rightarrow>
             st1\<lparr>tasks := sortTasks (map (\<lambda>t. if task_id t = taskId then updated else t) (tasks st1))\<rparr>
         | Inl e \<Rightarrow> st1\<lparr>error := or_else (Some (message e)) ''Failed to toggle task.''\<rparr>)"

definition saveEdit :: "(int \<Rightarrow> json \<Rightarrow> js_error + task) \<Rightarrow> int \<Rightarrow> ui \<Rightarrow> ui" where
  "saveEdit updateTask_op taskId st =
     (let title = trim (editingTitle st)
      in if title = [] then st
         else
           (let st1 = st\<lparr>error := []\<rparr>
            in case updateTask_op taskId (JObj [(''title'', JStr title)]) of
                 Inr updated \<Rightarrow>
                   cancelEdit
                     (st1\<lparr>tasks :=
                            sortTasks (map (\<lambda>t. if task_id t = taskId then updated else t) (tasks st1))\<rparr>)
               | Inl e \<Rightarrow> st1\<lparr>error := or_else (Some (message e)) ''Failed to update task.''\<rparr>))"

definition handleDelete :: "(int \<Rightarrow> js_error + unit) \<Rightarrow> int \<Rightarrow> ui \<Rightarrow> ui" where
  "handleDelete deleteTask_op taskId st =
     (let st1 = st\<lparr>error := []\<rparr>
      in case deleteTask_op taskId of
           Inr u \<Rightarrow>
             (let st2 = st1\<lparr>tasks := filter (\<lambda>t. task_id t \<noteq> taskId) (tasks st1)\<rparr>
              in if editingId st2 = Some taskId then cancelEdit st2 else st2)
         | Inl e \<Rightarrow> st1\<lparr>error := or_else (Some (message e)) ''Failed to delete task.''\<rparr>)"

section \<open>Notions of the specification\<close>

text \<open>The response declares a JSON content type, as \<^const>\<open>safeReadBody\<close> tests it.\<close>

definition declares_json :: "response \<Rightarrow> bool" where
  "declares_json res = is_json_content_type (toLowerCase (or_else (res_content_type res) []))"

text \<open>The specification's words for the base URL: of an ordered list of candidates, the
  first that is set and not empty, and the empty string when there is none.\<close>

fun first_non_empty :: "string option list \<Rightarrow> string" where
  "first_non_empty [] = []"
| "first_non_empty (None # vs) = first_non_empty vs"
| "first_non_empty (Some s # vs) = (if s = [] then first_non_empty vs else s)"

text \<open>The specification's failure message for a status outside the success range.\<close>

definition status_message :: "string \<Rightarrow> string \<Rightarrow> nat \<Rightarrow> string \<Rightarrow> string" where
  "status_message method path status hint =
     method @ '' '' @ path @ '' failed ('' @ digits_of_nat status @ ''). '' @ hint"

text \<open>The captured body is a string that starts, once trimmed, with the document
  declaration.\<close>

fun html_body :: "json \<Rightarrow> bool" where
  "html_body (JStr s) = startsWith (trim s) ''<!DOCTYPE''"
| "html_body v = False"

text \<open>An outcome is the failure for a status outside the success range: the status
  message with one of the two hints, and neither of the two messages for a success status.\<close>

definition status_failure :: "string \<Rightarrow> string \<Rightarrow> nat \<Rightarrow> js_error + 'a \<Rightarrow> bool" where
  "status_failure method path status outcome =
     ((outcome = Inl (Error (status_message method path status html_hint)) \<or>
       outcome = Inl (Error (status_message method path status other_hint))) \<and>
      outcome \<noteq> Inl (Error (non_json_message method path)) \<and>
      outcome \<noteq> Inl (Error (invalid_json_message method path)))"

text \<open>The specification's JSON media type (section 4.1, step 1): the media type of the
  header, in lower case and without its parameters, is exactly \<^verbatim>\<open>application/json\<close>
  or ends with \<^verbatim>\<open>+json\<close>.\<close>

definition media_type :: "string \<Rightarrow> string" where
  "media_type contentType = trim (takeWhile (\<lambda>c. c \<noteq> CHR '';'') (toLowerCase contentType))"

definition json_media_type :: "string \<Rightarrow> bool" where
  "json_media_type contentType =
     (media_type contentType = ''application/json'' \<or> suffix ''+json'' (media_type contentType))"

section \<open>Concrete environments and browsers\<close>

definition no_env :: env where
  "no_env = Map.empty"

definition env_of :: "(string \<times> string) list \<Rightarrow> env" where
  "env_of kvs = map_of kvs"

text \<open>A browser in which every request is answered by the given response.\<close>

definition answering :: "response \<Rightarrow> browser" where
  "answering res = \<lparr>respond = (\<lambda>u init. Inr res), JSON_stringify = (\<lambda>v. []), sent = []\<rparr>"

text \<open>An imported operation that settles to the given outcome.\<close>

definition settled :: "'b \<Rightarrow> 'a \<Rightarrow> 'b" where
  "settled outcome args = outcome"

section \<open>Facts about the string functions\<close>

declare digits_of_nat.simps [simp del]

lemma js_includes_iff: "js_includes s sub \<longleftrightarrow> (\<exists>p q. s = p @ sub @ q)"
proof (induction s)
  case Nil
  then show ?case by auto
next
  case (Cons c cs)
  show ?case
  proof
    assume "js_includes (c # cs) sub"
    then consider "prefix sub (c # cs)" | "js_includes cs sub" by auto
    then show "\<exists>p q. c # cs = p @ sub @ q"
    proof cases
      case 1
      then obtain q where "c # cs = sub @ q" by (auto simp: prefix_def)
      then have "c # cs = [] @ sub @ q" by simp
      then show ?thesis by blast
    next
      case 2
      with Cons.IH obtain p q where "cs = p @ sub @ q" by auto
      then have "c # cs = (c # p) @ sub @ q" by simp
      then show ?thesis by blast
    qed
  next
    assume "\<exists>p q. c # cs = p @ sub @ q"
    then obtain p q where pq: "c # cs = p @ sub @ q" by auto
    show "js_includes (c # cs) sub"
    proof (cases p)
      case Nil
      with pq have "prefix sub (c # cs)" by (simp add: prefix_def)
      then show ?thesis by simp
    next
      case (Cons a p')
      with pq have "cs = p' @ sub @ q" by simp
      with Cons.IH have "js_includes cs sub" by blast
      then show ?thesis by simp
    qed
  qed
qed

lemma js_includes_mid: "js_includes (p @ sub @ q) sub"
  unfolding js_includes_iff by blast

lemma js_includes_front: "js_includes (sub @ q) sub"
  using js_includes_mid [of "[]" sub q] by simp

lemma js_includes_sublist: "js_includes s sub \<longleftrightarrow> sublist sub s"
  by (simp add: js_includes_iff sublist_def)

lemma trim_append:
  assumes "p \<noteq> []" "\<not> is_js_space (hd p)" "\<not> is_js_space (last p)"
  shows "trim (p @ q) = p @ rev (dropWhile is_js_space (rev q))"
proof -
  from assms(1,2) have at_front: "dropWhile is_js_space (p @ q) = p @ q"
    by (cases p) auto
  from assms(1,3) have at_back: "dropWhile is_js_space (rev p) = rev p"
    by (cases "rev p") (auto simp: last_rev [symmetric] hd_rev)
  show ?thesis
    unfolding trim_def at_front
    by (simp add: dropWhile_append at_back)
qed

lemma doctype_survives_trim:
  assumes "prefix ''<!DOCTYPE'' s"
  shows "startsWith (trim s) ''<!DOCTYPE''"
proof -
  from assms obtain q where "s = ''<!DOCTYPE'' @ q" by (auto simp: prefix_def)
  moreover have "trim (''<!DOCTYPE'' @ q) = ''<!DOCTYPE'' @ rev (dropWhile is_js_space (rev q))"
    by (rule trim_append) (simp_all add: is_js_space_def)
  ultimately show ?thesis by (simp add: startsWith_def)
qed

section \<open>Facts about the client\<close>

lemma fetch_outcome: "fst (fetch u init b) = respond b u init"
  by (simp add: fetch_def)

lemma fetch_sent: "sent (snd (fetch u init b)) = sent b @ [(u, init)]"
  by (simp add: fetch_def)

lemma requestJson_outcome:
  assumes "respond b (url env path) options = Inr res"
  shows "fst (requestJson env path options b) =
         normalizeResponse (toUpperCase (or_else (init_method options) ''GET'')) path res"
  using assms by (simp add: requestJson_def fetch_def)

lemma requestJson_sent:
  "sent (snd (requestJson env path options b)) = sent b @ [(url env path, options)]"
  by (simp add: requestJson_def fetch_def split: sum.split)

lemma method_GET: "toUpperCase (or_else (init_method no_options) ''GET'') = ''GET''"
  by (simp add: no_options_def or_else_def toUpperCase_def char_to_upper_def)

lemma method_create: "toUpperCase (or_else (init_method (createTask_options b title)) ''GET'') = ''POST''"
  by (simp add: createTask_options_def or_else_def toUpperCase_def char_to_upper_def)

lemma method_update: "toUpperCase (or_else (init_method (updateTask_options b patch)) ''GET'') = ''PUT''"
  by (simp add: updateTask_options_def or_else_def toUpperCase_def char_to_upper_def)

lemma method_toggle: "toUpperCase (or_else (init_method toggleTask_options) ''GET'') = ''POST''"
  by (simp add: toggleTask_options_def or_else_def toUpperCase_def char_to_upper_def)

lemma listTasks_outcome:
  "respond b (url env ''/tasks'') no_options = Inr res \<Longrightarrow>
   fst (listTasks env b) = normalizeResponse ''GET'' ''/tasks'' res"
  unfolding listTasks_def by (simp only: requestJson_outcome method_GET)

lemma createTask_outcome:
  "respond b (url env ''/tasks'') (createTask_options b title) = Inr res \<Longrightarrow>
   fst (createTask env title b) = normalizeResponse ''POST'' ''/tasks'' res"
  unfolding createTask_def by (simp only: requestJson_outcome method_create)

lemma updateTask_outcome:
  "respond b (url env (''/tasks/'' @ string_of_int taskId)) (updateTask_options b patch) = Inr res \<Longrightarrow>
   fst (updateTask env taskId patch b) = normalizeResponse ''PUT'' (''/tasks/'' @ string_of_int taskId) res"
  unfolding updateTask_def by (simp only: requestJson_outcome method_update)

lemma toggleTask_outcome:
  "respond b (url env (''/tasks/'' @ string_of_int taskId @ ''/toggle'')) toggleTask_options = Inr res \<Longrightarrow>
   fst (toggleTask env taskId b) = normalizeResponse ''POST'' (''/tasks/'' @ string_of_int taskId @ ''/toggle'') res"
  unfolding toggleTask_def by (simp only: requestJson_outcome method_toggle)

lemma deleteTask_outcome:
  "respond b (url env (''/tasks/'' @ string_of_int taskId)) deleteTask_options = Inr res \<Longrightarrow>
   fst (deleteTask env taskId b) =
     (if ok res then Inr ()
      else Inl (Error (toHelpfulErrorMessage ''DELETE'' (''/tasks/'' @ string_of_int taskId)
                         (res_status res) (safeReadBody res))))"
  by (simp add: deleteTask_def fetch_def)

lemma deleteTask_sent:
  "sent (snd (deleteTask env taskId b)) =
   sent b @ [(url env (''/tasks/'' @ string_of_int taskId), deleteTask_options)]"
  by (simp add: deleteTask_def fetch_def split: sum.split)

lemma helpful_message:
  "toHelpfulErrorMessage method path status body =
   status_message method path status (if html_body body then html_hint else other_hint)"
  by (cases body) (simp_all add: toHelpfulErrorMessage_def status_message_def)

lemma normalize_not_ok:
  "\<not> ok res \<Longrightarrow>
   normalizeResponse method path res =
   Inl (Error (status_message method path (res_status res)
                 (if html_body (safeReadBody res) then html_hint else other_hint)))"
  by (simp add: normalizeResponse_def helpful_message)

lemma safeReadBody_json:
  "declares_json res \<Longrightarrow> res_json res = Inr v \<Longrightarrow> safeReadBody res = v"
  by (simp add: safeReadBody_def declares_json_def)

lemma safeReadBody_parse_failure:
  "declares_json res \<Longrightarrow> res_json res = Inl e \<Longrightarrow>
   safeReadBody res = parse_error_value (case res_text res of None \<Rightarrow> [] | Some t \<Rightarrow> t) e"
  by (simp add: safeReadBody_def declares_json_def)

lemma safeReadBody_text:
  "\<not> declares_json res \<Longrightarrow>
   safeReadBody res = JStr (case res_text res of None \<Rightarrow> [] | Some t \<Rightarrow> t)"
  by (simp add: safeReadBody_def declares_json_def)

lemma normalize_json:
  "ok res \<Longrightarrow> declares_json res \<Longrightarrow> res_json res = Inr v \<Longrightarrow>
   normalizeResponse method path res =
     (if typeof_string v then Inl (Error (non_json_message method path))
      else if has_parse_error v then Inl (Error (invalid_json_message method path))
      else Inr v)"
  by (simp add: normalizeResponse_def safeReadBody_json)

lemma normalize_text:
  "ok res \<Longrightarrow> \<not> declares_json res \<Longrightarrow>
   normalizeResponse method path res = Inl (Error (non_json_message method path))"
  by (simp add: normalizeResponse_def safeReadBody_text)

lemma has_parse_error_value: "has_parse_error (parse_error_value text e)"
  by (simp add: has_parse_error_def parse_error_value_def)

lemma typeof_parse_error_value: "\<not> typeof_string (parse_error_value text e)"
  by (simp add: parse_error_value_def)

lemma normalize_parse_failure:
  "ok res \<Longrightarrow> declares_json res \<Longrightarrow> res_json res = Inl e \<Longrightarrow>
   normalizeResponse method path res = Inl (Error (invalid_json_message method path))"
  by (simp add: normalizeResponse_def safeReadBody_parse_failure has_parse_error_value
        typeof_parse_error_value)

lemma first_non_empty_two:
  "first_non_empty [a, b] = or_else a (or_else b [])"
  by (cases a; cases b) (simp_all add: or_else_def)

lemma strip_trailing_slash_snoc: "strip_trailing_slash (s @ ''/'') = s"
  by (simp add: strip_trailing_slash_def)

lemma strip_trailing_slash_other: "\<not> suffix ''/'' s \<Longrightarrow> strip_trailing_slash s = s"
  by (cases s rule: rev_cases) (auto simp: strip_trailing_slash_def suffix_def)

lemma status_failure_either:
  assumes "method \<in> {''GET'', ''POST'', ''PUT'', ''DELETE''}"
  shows "status_failure method path status
           (Inl (Error (status_message method path status
                          (if h then html_hint else other_hint))))"
  using assms
  by (auto simp: status_failure_def status_message_def non_json_message_def
        invalid_json_message_def)

lemma status_message_includes:
  "js_includes (status_message method path status hint) method"
  "js_includes (status_message method path status hint) path"
  "js_includes (status_message method path status hint) (digits_of_nat status)"
proof -
  show "js_includes (status_message method path status hint) method"
    unfolding status_message_def by (rule js_includes_front)
  have "js_includes ((method @ '' '') @ path @ ('' failed ('' @ digits_of_nat status @ ''). '' @ hint)) path"
    by (rule js_includes_mid)
  then show "js_includes (status_message method path status hint) path"
    by (simp add: status_message_def)
  have "js_includes ((method @ '' '' @ path @ '' failed ('') @ digits_of_nat status @ (''). '' @ hint))
          (digits_of_nat status)"
    by (rule js_includes_mid)
  then show "js_includes (status_message method path status hint) (digits_of_nat status)"
    by (simp add: status_message_def)
qed

lemma non_json_message_includes:
  "js_includes (non_json_message method path) ''Unexpected non-JSON response''"
  unfolding non_json_message_def
  using js_includes_front [of "''Unexpected non-JSON response''"] by simp

lemma invalid_json_message_includes:
  "js_includes (invalid_json_message method path) ''Invalid JSON response''"
  unfolding invalid_json_message_def
  using js_includes_front [of "''Invalid JSON response''"] by simp

lemma status_message_html_includes:
  "js_includes (status_message method path status html_hint) ''Received HTML instead of JSON''"
proof -
  have "js_includes
          ((method @ '' '' @ path @ '' failed ('' @ digits_of_nat status @ ''). '')
           @ ''Received HTML instead of JSON'' @ ''. Check API base URL configuration.'')
          ''Received HTML instead of JSON''"
    by (rule js_includes_mid)
  then show ?thesis by (simp add: status_message_def html_hint_def)
qed

lemma html_body_parse_error_value: "\<not> html_body (parse_error_value text e)"
  by (simp add: parse_error_value_def)

lemma normalize_parse_failure_any:
  assumes "declares_json res" and "res_json res = Inl e"
  shows "normalizeResponse method path res =
           (if ok res then Inl (Error (invalid_json_message method path))
            else Inl (Error (status_message method path (res_status res) other_hint)))"
proof (cases "ok res")
  case True
  with assms show ?thesis by (simp add: normalize_parse_failure)
next
  case False
  with assms show ?thesis
    by (simp add: normalize_not_ok safeReadBody_parse_failure html_body_parse_error_value)
qed

section \<open>The claims\<close>

text \<open>
  C1.  The claim is that a body that parses is returned unchanged whatever its shape.  The
  client does not do so at two decoded values.  With status 200 and content type
  \<^verbatim>\<open>application/json\<close>, the body \<^verbatim>\<open>"hello"\<close> decodes to a string and
  \<^verbatim>\<open>listTasks\<close> fails with the message for a non-JSON response, and the body
  \<^verbatim>\<open>{"__parse_error":"none"}\<close> decodes to an object and \<^verbatim>\<open>listTasks\<close> fails with
  the message for invalid JSON, although the response is JSON and parsing did not fail.
\<close>

theorem decoded_string_rejected:
  "ok \<lparr>res_status = 200, res_content_type = Some ''application/json'',
       res_json = Inr (JStr ''hello''), res_text = None\<rparr>
   \<and> declares_json \<lparr>res_status = 200, res_content_type = Some ''application/json'',
       res_json = Inr (JStr ''hello''), res_text = None\<rparr>
   \<and> fst (listTasks no_env
        (answering \<lparr>res_status = 200, res_content_type = Some ''application/json'',
                    res_json = Inr (JStr ''hello''), res_text = None\<rparr>))
       = Inl (Error ''Unexpected non-JSON response for GET /tasks. Check API base URL configuration.'')
   \<and> fst (listTasks no_env
        (answering \<lparr>res_status = 200, res_content_type = Some ''application/json'',
                    res_json = Inr (JStr ''hello''), res_text = None\<rparr>))
       \<noteq> Inr (JStr ''hello'')
   \<and> fst (listTasks no_env
        (answering \<lparr>res_status = 200, res_content_type = Some ''application/json'',
                    res_json = Inr (JObj [(''__parse_error'', JStr ''none'')]), res_text = None\<rparr>))
       = Inl (Error ''Invalid JSON response for GET /tasks. Check API base URL configuration.'')"
proof -
  let ?res = "\<lparr>res_status = 200, res_content_type = Some ''application/json'',
       res_json = Inr (JStr ''hello''), res_text = None\<rparr>"
  let ?obj = "\<lparr>res_status = 200, res_content_type = Some ''application/json'',
       res_json = Inr (JObj [(''__parse_error'', JStr ''none'')]), res_text = None\<rparr>"
  have o: "ok ?res" "ok ?obj" by (simp_all add: ok_def)
  have j: "declares_json ?res" "declares_json ?obj"
    by (simp_all add: declares_json_def is_json_content_type_def or_else_def toLowerCase_def
          char_to_lower_def)
  have "respond (answering ?res) (url no_env ''/tasks'') no_options = Inr ?res"
    by (simp add: answering_def)
  then have "fst (listTasks no_env (answering ?res)) = normalizeResponse ''GET'' ''/tasks'' ?res"
    by (rule listTasks_outcome)
  also have "\<dots> = Inl (Error (non_json_message ''GET'' ''/tasks''))"
    using o(1) j(1) by (simp add: normalize_json)
  finally have r: "fst (listTasks no_env (answering ?res)) =
      Inl (Error ''Unexpected non-JSON response for GET /tasks. Check API base URL configuration.'')"
    by (simp add: non_json_message_def)
  have "respond (answering ?obj) (url no_env ''/tasks'') no_options = Inr ?obj"
    by (simp add: answering_def)
  then have "fst (listTasks no_env (answering ?obj)) = normalizeResponse ''GET'' ''/tasks'' ?obj"
    by (rule listTasks_outcome)
  also have "\<dots> = Inl (Error (invalid_json_message ''GET'' ''/tasks''))"
    using o(2) j(2) by (simp add: normalize_json has_parse_error_def)
  finally have r': "fst (listTasks no_env (answering ?obj)) =
      Inl (Error ''Invalid JSON response for GET /tasks. Check API base URL configuration.'')"
    by (simp add: invalid_json_message_def)
  from o(1) j(1) r r' show ?thesis by simp
qed

text \<open>
  C2.  For a response with a status outside 200 to 299, each operation fails with the
  message \<^verbatim>\<open>{METHOD} {PATH} failed ({STATUS}). \<close> followed by one of the two hints,
  whatever the body is: the messages for a non-JSON body and for invalid JSON do not
  occur.  The message contains the method, the path and the decimal status.
\<close>

theorem non_success_status_fails:
  assumes "\<not> ok res"
  shows "(respond b (url env ''/tasks'') no_options = Inr res
            \<longrightarrow> status_failure ''GET'' ''/tasks'' (res_status res) (fst (listTasks env b)))
       \<and> (respond b (url env ''/tasks'') (createTask_options b title) = Inr res
            \<longrightarrow> status_failure ''POST'' ''/tasks'' (res_status res) (fst (createTask env title b)))
       \<and> (respond b (url env (''/tasks/'' @ string_of_int taskId)) (updateTask_options b patch) = Inr res
            \<longrightarrow> status_failure ''PUT'' (''/tasks/'' @ string_of_int taskId) (res_status res)
                  (fst (updateTask env taskId patch b)))
       \<and> (respond b (url env (''/tasks/'' @ string_of_int taskId @ ''/toggle'')) toggleTask_options = Inr res
            \<longrightarrow> status_failure ''POST'' (''/tasks/'' @ string_of_int taskId @ ''/toggle'') (res_status res)
                  (fst (toggleTask env taskId b)))
       \<and> (respond b (url env (''/tasks/'' @ string_of_int taskId)) deleteTask_options = Inr res
            \<longrightarrow> status_failure ''DELETE'' (''/tasks/'' @ string_of_int taskId) (res_status res)
                  (fst (deleteTask env taskId b)))
       \<and> js_includes (status_message method path status hint) method
       \<and> js_includes (status_message method path status hint) path
       \<and> js_includes (status_message method path status hint) (digits_of_nat status)"
proof -
  have l: "respond b (url env ''/tasks'') no_options = Inr res
            \<longrightarrow> status_failure ''GET'' ''/tasks'' (res_status res) (fst (listTasks env b))"
    using assms by (simp add: listTasks_outcome normalize_not_ok status_failure_either)
  have c: "respond b (url env ''/tasks'') (createTask_options b title) = Inr res
            \<longrightarrow> status_failure ''POST'' ''/tasks'' (res_status res) (fst (createTask env title b))"
    using assms by (simp add: createTask_outcome normalize_not_ok status_failure_either)
  have u: "respond b (url env (''/tasks/'' @ string_of_int taskId)) (updateTask_options b patch) = Inr res
            \<longrightarrow> status_failure ''PUT'' (''/tasks/'' @ string_of_int taskId) (res_status res)
                  (fst (updateTask env taskId patch b))"
    using assms by (simp add: updateTask_outcome normalize_not_ok status_failure_either)
  have t: "respond b (url env (''/tasks/'' @ string_of_int taskId @ ''/toggle'')) toggleTask_options = Inr res
            \<longrightarrow> status_failure ''POST'' (''/tasks/'' @ string_of_int taskId @ ''/toggle'') (res_status res)
                  (fst (toggleTask env taskId b))"
    using assms by (simp add: toggleTask_outcome normalize_not_ok status_failure_either)
  have d: "respond b (url env (''/tasks/'' @ string_of_int taskId)) deleteTask_options = Inr res
            \<longrightarrow> status_failure ''DELETE'' (''/tasks/'' @ string_of_int taskId) (res_status res)
                  (fst (deleteTask env taskId b))"
    using assms by (simp add: deleteTask_outcome helpful_message status_failure_either)
  from l c u t d status_message_includes [of "method" path status hint] show ?thesis by blast
qed

theorem non_success_status_fails_witness:
  "\<not> ok \<lparr>res_status = 500, res_content_type = Some ''application/json'',
           res_json = Inr (JObj [(''error'', JStr ''boom'')]), res_text = None\<rparr>
   \<and> status_failure ''GET'' ''/tasks'' 500
       (fst (listTasks no_env
          (answering \<lparr>res_status = 500, res_content_type = Some ''application/json'',
                      res_json = Inr (JObj [(''error'', JStr ''boom'')]), res_text = None\<rparr>)))
   \<and> js_includes (status_message ''GET'' ''/tasks'' 500 other_hint) (digits_of_nat 500)
   \<and> status_message ''GET'' ''/tasks'' 500 other_hint
       = ''GET /tasks failed (500). Unexpected response from server.''"
proof -
  let ?res = "\<lparr>res_status = 500, res_content_type = Some ''application/json'',
           res_json = Inr (JObj [(''error'', JStr ''boom'')]), res_text = None\<rparr>"
  have o: "\<not> ok ?res" by (simp add: ok_def)
  have a: "respond (answering ?res) (url no_env ''/tasks'') no_options = Inr ?res"
    by (simp add: answering_def)
  have "digits_of_nat 500 = ''500''" by code_simp
  then have m: "status_message ''GET'' ''/tasks'' 500 other_hint
       = ''GET /tasks failed (500). Unexpected response from server.''"
    by (simp add: status_message_def other_hint_def)
  from non_success_status_fails [OF o, of "answering ?res" no_env _ _ _ "''GET''" "''/tasks''" 500 other_hint] a
  have "status_failure ''GET'' ''/tasks'' (res_status ?res) (fst (listTasks no_env (answering ?res)))
      \<and> js_includes (status_message ''GET'' ''/tasks'' 500 other_hint) (digits_of_nat 500)"
    by blast
  with o m show ?thesis by simp
qed

text \<open>
  C3 as stated fails.  \<^verbatim>\<open>deleteTask\<close> is a client operation and resolves on status
  200 with content type \<^verbatim>\<open>text/html\<close>: it does not read the body of a successful
  response.  And \<^verbatim>\<open>application/jsonp\<close> is not a JSON media type, yet it contains
  \<^verbatim>\<open>application/json\<close>, so \<^verbatim>\<open>listTasks\<close> decodes the body and returns the value.
\<close>

theorem non_json_success_not_always_failure:
  "ok \<lparr>res_status = 200, res_content_type = Some ''text/html'',
       res_json = Inl ''SyntaxError'', res_text = Some ''<!DOCTYPE html><html></html>''\<rparr>
   \<and> \<not> json_media_type ''text/html''
   \<and> fst (deleteTask no_env 5
         (answering \<lparr>res_status = 200, res_content_type = Some ''text/html'',
            res_json = Inl ''SyntaxError'', res_text = Some ''<!DOCTYPE html><html></html>''\<rparr>))
       = Inr ()
   \<and> ok \<lparr>res_status = 200, res_content_type = Some ''application/jsonp'',
       res_json = Inr (JArr []), res_text = None\<rparr>
   \<and> \<not> json_media_type ''application/jsonp''
   \<and> fst (listTasks no_env
         (answering \<lparr>res_status = 200, res_content_type = Some ''application/jsonp'',
            res_json = Inr (JArr []), res_text = None\<rparr>))
       = Inr (JArr [])"
proof -
  let ?page = "\<lparr>res_status = 200, res_content_type = Some ''text/html'',
       res_json = Inl ''SyntaxError'', res_text = Some ''<!DOCTYPE html><html></html>''\<rparr>"
  let ?jsonp = "\<lparr>res_status = 200, res_content_type = Some ''application/jsonp'',
       res_json = Inr (JArr []), res_text = None\<rparr>"
  have o: "ok ?page" "ok ?jsonp" by (simp_all add: ok_def)
  have m: "\<not> json_media_type ''text/html''" "\<not> json_media_type ''application/jsonp''"
    by (simp_all add: json_media_type_def media_type_def toLowerCase_def char_to_lower_def
          trim_def is_js_space_def suffix_to_prefix)
  have "respond (answering ?page) (url no_env (''/tasks/'' @ string_of_int 5)) deleteTask_options
          = Inr ?page"
    by (simp add: answering_def)
  then have d: "fst (deleteTask no_env 5 (answering ?page)) = Inr ()"
    using o(1) by (simp add: deleteTask_outcome)
  have j: "declares_json ?jsonp"
    by (simp add: declares_json_def is_json_content_type_def or_else_def toLowerCase_def
          char_to_lower_def)
  have "respond (answering ?jsonp) (url no_env ''/tasks'') no_options = Inr ?jsonp"
    by (simp add: answering_def)
  then have "fst (listTasks no_env (answering ?jsonp)) = normalizeResponse ''GET'' ''/tasks'' ?jsonp"
    by (rule listTasks_outcome)
  also have "\<dots> = Inr (JArr [])"
    using o(2) j by (simp add: normalize_json has_parse_error_def)
  finally have l: "fst (listTasks no_env (answering ?jsonp)) = Inr (JArr [])" .
  from o m d l show ?thesis by blast
qed

text \<open>
  C3, amended.  For a response with a status from 200 to 299 whose content type, in
  lower case, contains neither \<^verbatim>\<open>application/json\<close> nor \<^verbatim>\<open>+json\<close> (an absent
  header counts as the empty string), the captured body is a string, and each of list,
  create, update and toggle fails with \<^verbatim>\<open>Unexpected non-JSON response for {METHOD}
  {PATH}. Check API base URL configuration.\<close>, which contains
  \<^verbatim>\<open>Unexpected non-JSON response\<close>.
\<close>

theorem non_json_success_fails:
  assumes "ok res"
    and "\<not> sublist ''application/json'' (toLowerCase (or_else (res_content_type res) []))"
    and "\<not> sublist ''+json'' (toLowerCase (or_else (res_content_type res) []))"
  shows "typeof_string (safeReadBody res)
       \<and> (respond b (url env ''/tasks'') no_options = Inr res
            \<longrightarrow> fst (listTasks env b) = Inl (Error (non_json_message ''GET'' ''/tasks'')))
       \<and> (respond b (url env ''/tasks'') (createTask_options b title) = Inr res
            \<longrightarrow> fst (createTask env title b) = Inl (Error (non_json_message ''POST'' ''/tasks'')))
       \<and> (respond b (url env (''/tasks/'' @ string_of_int taskId)) (updateTask_options b patch) = Inr res
            \<longrightarrow> fst (updateTask env taskId patch b)
                = Inl (Error (non_json_message ''PUT'' (''/tasks/'' @ string_of_int taskId))))
       \<and> (respond b (url env (''/tasks/'' @ string_of_int taskId @ ''/toggle'')) toggleTask_options = Inr res
            \<longrightarrow> fst (toggleTask env taskId b)
                = Inl (Error (non_json_message ''POST'' (''/tasks/'' @ string_of_int taskId @ ''/toggle''))))
       \<and> js_includes (non_json_message method path) ''Unexpected non-JSON response''"
proof -
  from assms(2,3) have nj: "\<not> declares_json res"
    by (simp add: declares_json_def is_json_content_type_def js_includes_sublist)
  then have s: "typeof_string (safeReadBody res)"
    by (simp add: safeReadBody_text)
  have n: "normalizeResponse m p res = Inl (Error (non_json_message m p))" for m p
    using assms(1) nj by (rule normalize_text)
  from s non_json_message_includes [of "method" path] show ?thesis
    by (simp add: listTasks_outcome createTask_outcome updateTask_outcome toggleTask_outcome n)
qed

theorem non_json_success_fails_witness:
  "ok \<lparr>res_status = 200, res_content_type = Some ''text/html'',
       res_json = Inl ''SyntaxError'', res_text = Some ''<!DOCTYPE html><html></html>''\<rparr>
   \<and> \<not> sublist ''application/json'' ''text/html''
   \<and> \<not> sublist ''+json'' ''text/html''
   \<and> fst (listTasks no_env
         (answering \<lparr>res_status = 200, res_content_type = Some ''text/html'',
            res_json = Inl ''SyntaxError'', res_text = Some ''<!DOCTYPE html><html></html>''\<rparr>))
       = Inl (Error ''Unexpected non-JSON response for GET /tasks. Check API base URL configuration.'')
   \<and> js_includes ''Unexpected non-JSON response for GET /tasks. Check API base URL configuration.''
         ''Unexpected non-JSON response for GET /tasks''"
proof -
  let ?res = "\<lparr>res_status = 200, res_content_type = Some ''text/html'',
       res_json = Inl ''SyntaxError'', res_text = Some ''<!DOCTYPE html><html></html>''\<rparr>"
  have o: "ok ?res" by (simp add: ok_def)
  have lower: "toLowerCase (or_else (res_content_type ?res) []) = ''text/html''"
    by (simp add: or_else_def toLowerCase_def char_to_lower_def)
  have c: "\<not> sublist ''application/json'' ''text/html''" "\<not> sublist ''+json'' ''text/html''"
    by (simp_all add: js_includes_sublist [symmetric])
  have a: "respond (answering ?res) (url no_env ''/tasks'') no_options = Inr ?res"
    by (simp add: answering_def)
  have c1: "\<not> sublist ''application/json'' (toLowerCase (or_else (res_content_type ?res) []))"
    unfolding lower by (rule c(1))
  have c2: "\<not> sublist ''+json'' (toLowerCase (or_else (res_content_type ?res) []))"
    unfolding lower by (rule c(2))
  from non_json_success_fails [OF o c1 c2, of "answering ?res" no_env] a
  have "fst (listTasks no_env (answering ?res)) = Inl (Error (non_json_message ''GET'' ''/tasks''))"
    by blast
  then have r: "fst (listTasks no_env (answering ?res))
       = Inl (Error ''Unexpected non-JSON response for GET /tasks. Check API base URL configuration.'')"
    by (simp add: non_json_message_def)
  have i: "js_includes ''Unexpected non-JSON response for GET /tasks. Check API base URL configuration.''
         ''Unexpected non-JSON response for GET /tasks''"
    using js_includes_front [of "''Unexpected non-JSON response for GET /tasks''"
        "''. Check API base URL configuration.''"] by simp
  from o c r i show ?thesis by blast
qed

text \<open>
  C4 as stated fails in its second half: a body with white space before the document
  declaration does not begin with \<^verbatim>\<open><!DOCTYPE\<close>, and the hint is the HTML hint all
  the same, because the body is trimmed before the test.
\<close>

theorem html_hint_after_leading_space:
  "\<not> ok \<lparr>res_status = 502, res_content_type = Some ''text/html'',
          res_json = Inl ''SyntaxError'', res_text = Some '' <!DOCTYPE html>''\<rparr>
   \<and> safeReadBody \<lparr>res_status = 502, res_content_type = Some ''text/html'',
          res_json = Inl ''SyntaxError'', res_text = Some '' <!DOCTYPE html>''\<rparr>
       = JStr '' <!DOCTYPE html>''
   \<and> \<not> prefix ''<!DOCTYPE'' '' <!DOCTYPE html>''
   \<and> fst (listTasks no_env
         (answering \<lparr>res_status = 502, res_content_type = Some ''text/html'',
            res_json = Inl ''SyntaxError'', res_text = Some '' <!DOCTYPE html>''\<rparr>))
       = Inl (Error ''GET /tasks failed (502). Received HTML instead of JSON. Check API base URL configuration.'')
   \<and> fst (listTasks no_env
         (answering \<lparr>res_status = 502, res_content_type = Some ''text/html'',
            res_json = Inl ''SyntaxError'', res_text = Some '' <!DOCTYPE html>''\<rparr>))
       \<noteq> Inl (Error ''GET /tasks failed (502). Unexpected response from server.'')"
proof -
  let ?res = "\<lparr>res_status = 502, res_content_type = Some ''text/html'',
          res_json = Inl ''SyntaxError'', res_text = Some '' <!DOCTYPE html>''\<rparr>"
  have digits: "digits_of_nat 502 = ''502''" by code_simp
  have o: "\<not> ok ?res" by (simp add: ok_def)
  have j: "\<not> declares_json ?res"
    by (simp add: declares_json_def is_json_content_type_def or_else_def toLowerCase_def
          char_to_lower_def)
  then have body: "safeReadBody ?res = JStr '' <!DOCTYPE html>''"
    by (simp add: safeReadBody_text)
  have t: "trim '' <!DOCTYPE html>'' = ''<!DOCTYPE html>''"
    by (simp add: trim_def is_js_space_def)
  have "respond (answering ?res) (url no_env ''/tasks'') no_options = Inr ?res"
    by (simp add: answering_def)
  then have "fst (listTasks no_env (answering ?res)) = normalizeResponse ''GET'' ''/tasks'' ?res"
    by (rule listTasks_outcome)
  also have "\<dots> = Inl (Error (status_message ''GET'' ''/tasks'' 502 html_hint))"
    using o by (simp add: normalize_not_ok body t startsWith_def)
  finally have r: "fst (listTasks no_env (answering ?res))
       = Inl (Error ''GET /tasks failed (502). Received HTML instead of JSON. Check API base URL configuration.'')"
    by (simp add: status_message_def html_hint_def digits)
  from o body r show ?thesis by simp
qed

text \<open>
  C4, amended.  For a response with a status outside 200 to 299, the hint of the failure
  message is \<^verbatim>\<open>Received HTML instead of JSON. Check API base URL configuration.\<close> when
  the captured body is a string that, with the white space at its ends removed, begins
  with \<^verbatim>\<open><!DOCTYPE\<close>, and \<^verbatim>\<open>Unexpected response from server.\<close> for any other
  captured body.  A string that begins with \<^verbatim>\<open><!DOCTYPE\<close> is such a body.
\<close>

theorem html_hint_for_trimmed_doctype:
  assumes "\<not> ok res"
  shows "(respond b (url env ''/tasks'') no_options = Inr res
            \<longrightarrow> fst (listTasks env b)
                = Inl (Error (status_message ''GET'' ''/tasks'' (res_status res)
                                (if html_body (safeReadBody res) then html_hint else other_hint))))
       \<and> (respond b (url env ''/tasks'') (createTask_options b title) = Inr res
            \<longrightarrow> fst (createTask env title b)
                = Inl (Error (status_message ''POST'' ''/tasks'' (res_status res)
                                (if html_body (safeReadBody res) then html_hint else other_hint))))
       \<and> (respond b (url env (''/tasks/'' @ string_of_int taskId)) (updateTask_options b patch) = Inr res
            \<longrightarrow> fst (updateTask env taskId patch b)
                = Inl (Error (status_message ''PUT'' (''/tasks/'' @ string_of_int taskId) (res_status res)
                                (if html_body (safeReadBody res) then html_hint else other_hint))))
       \<and> (respond b (url env (''/tasks/'' @ string_of_int taskId @ ''/toggle'')) toggleTask_options = Inr res
            \<longrightarrow> fst (toggleTask env taskId b)
                = Inl (Error (status_message ''POST'' (''/tasks/'' @ string_of_int taskId @ ''/toggle'')
                                (res_status res)
                                (if html_body (safeReadBody res) then html_hint else other_hint))))
       \<and> (respond b (url env (''/tasks/'' @ string_of_int taskId)) deleteTask_options = Inr res
            \<longrightarrow> fst (deleteTask env taskId b)
                = Inl (Error (status_message ''DELETE'' (''/tasks/'' @ string_of_int taskId) (res_status res)
                                (if html_body (safeReadBody res) then html_hint else other_hint))))
       \<and> (safeReadBody res = JStr s \<and> prefix ''<!DOCTYPE'' s \<longrightarrow> html_body (safeReadBody res))
       \<and> js_includes (status_message method path status html_hint) ''Received HTML instead of JSON''"
proof -
  have d: "safeReadBody res = JStr s \<and> prefix ''<!DOCTYPE'' s \<longrightarrow> html_body (safeReadBody res)"
    by (auto simp: doctype_survives_trim)
  from assms d status_message_html_includes [of "method" path status] show ?thesis
    by (simp add: listTasks_outcome createTask_outcome updateTask_outcome toggleTask_outcome
          deleteTask_outcome helpful_message normalize_not_ok)
qed

theorem html_hint_for_trimmed_doctype_witness:
  "\<not> ok \<lparr>res_status = 404, res_content_type = Some ''text/html; charset=utf-8'',
          res_json = Inl ''SyntaxError'', res_text = Some ''<!DOCTYPE html><html></html>''\<rparr>
   \<and> prefix ''<!DOCTYPE'' ''<!DOCTYPE html><html></html>''
   \<and> fst (createTask no_env ''Buy milk''
         (answering \<lparr>res_status = 404, res_content_type = Some ''text/html; charset=utf-8'',
            res_json = Inl ''SyntaxError'', res_text = Some ''<!DOCTYPE html><html></html>''\<rparr>))
       = Inl (Error ''POST /tasks failed (404). Received HTML instead of JSON. Check API base URL configuration.'')"
proof -
  let ?res = "\<lparr>res_status = 404, res_content_type = Some ''text/html; charset=utf-8'',
          res_json = Inl ''SyntaxError'', res_text = Some ''<!DOCTYPE html><html></html>''\<rparr>"
  have digits: "digits_of_nat 404 = ''404''" by code_simp
  have o: "\<not> ok ?res" by (simp add: ok_def)
  have j: "\<not> declares_json ?res"
    by (simp add: declares_json_def is_json_content_type_def or_else_def toLowerCase_def
          char_to_lower_def)
  then have body: "safeReadBody ?res = JStr ''<!DOCTYPE html><html></html>''"
    by (simp add: safeReadBody_text)
  have p: "prefix ''<!DOCTYPE'' ''<!DOCTYPE html><html></html>''" by simp
  have a: "respond (answering ?res) (url no_env ''/tasks'')
             (createTask_options (answering ?res) ''Buy milk'') = Inr ?res"
    by (simp add: answering_def)
  note w = html_hint_for_trimmed_doctype [OF o, of "answering ?res" no_env "''Buy milk''" _ _
      "''<!DOCTYPE html><html></html>''"]
  from w body p have h: "html_body (safeReadBody ?res)" by blast
  from w a have "fst (createTask no_env ''Buy milk'' (answering ?res))
       = Inl (Error (status_message ''POST'' ''/tasks'' (res_status ?res)
                       (if html_body (safeReadBody ?res) then html_hint else other_hint)))"
    by blast
  with h have r: "fst (createTask no_env ''Buy milk'' (answering ?res))
       = Inl (Error ''POST /tasks failed (404). Received HTML instead of JSON. Check API base URL configuration.'')"
    by (simp add: status_message_def html_hint_def digits)
  from o p r show ?thesis by blast
qed

text \<open>
  C5 as stated fails for one client operation: \<^verbatim>\<open>deleteTask\<close> resolves on status 200
  with a JSON content type and a body that does not parse, because it does not read the
  body of a successful response.
\<close>

theorem delete_resolves_on_unparsable_json:
  "ok \<lparr>res_status = 200, res_content_type = Some ''application/json'',
       res_json = Inl ''SyntaxError: Unexpected token'', res_text = Some ''{oops''\<rparr>
   \<and> declares_json \<lparr>res_status = 200, res_content_type = Some ''application/json'',
       res_json = Inl ''SyntaxError: Unexpected token'', res_text = Some ''{oops''\<rparr>
   \<and> json_media_type ''application/json''
   \<and> fst (deleteTask no_env 5
         (answering \<lparr>res_status = 200, res_content_type = Some ''application/json'',
            res_json = Inl ''SyntaxError: Unexpected token'', res_text = Some ''{oops''\<rparr>))
       = Inr ()"
proof -
  let ?res = "\<lparr>res_status = 200, res_content_type = Some ''application/json'',
       res_json = Inl ''SyntaxError: Unexpected token'', res_text = Some ''{oops''\<rparr>"
  have o: "ok ?res" by (simp add: ok_def)
  have j: "declares_json ?res"
    by (simp add: declares_json_def is_json_content_type_def or_else_def toLowerCase_def
          char_to_lower_def)
  have m: "json_media_type ''application/json''"
    by (simp add: json_media_type_def media_type_def toLowerCase_def char_to_lower_def
          trim_def is_js_space_def)
  have "respond (answering ?res) (url no_env (''/tasks/'' @ string_of_int 5)) deleteTask_options
          = Inr ?res"
    by (simp add: answering_def)
  then have d: "fst (deleteTask no_env 5 (answering ?res)) = Inr ()"
    using o by (simp add: deleteTask_outcome)
  from o j m d show ?thesis by blast
qed

text \<open>
  C5, amended.  For a response with a JSON content type whose body fails to parse,
  \<^verbatim>\<open>safeReadBody\<close> returns the marked object \<^verbatim>\<open>{__parse_error: true, __raw,
  __error}\<close> instead of raising.  With a status from 200 to 299, each of list, create,
  update and toggle then fails with \<^verbatim>\<open>Invalid JSON response for {METHOD} {PATH}.
  Check API base URL configuration.\<close>; with any other status the status check comes first
  and the failure is the status message.
\<close>

theorem invalid_json_success_fails:
  assumes "declares_json res" and "res_json res = Inl e"
  shows "safeReadBody res = parse_error_value (case res_text res of None \<Rightarrow> [] | Some t \<Rightarrow> t) e
       \<and> (respond b (url env ''/tasks'') no_options = Inr res
            \<longrightarrow> fst (listTasks env b)
                = (if ok res then Inl (Error (invalid_json_message ''GET'' ''/tasks''))
                   else Inl (Error (status_message ''GET'' ''/tasks'' (res_status res) other_hint))))
       \<and> (respond b (url env ''/tasks'') (createTask_options b title) = Inr res
            \<longrightarrow> fst (createTask env title b)
                = (if ok res then Inl (Error (invalid_json_message ''POST'' ''/tasks''))
                   else Inl (Error (status_message ''POST'' ''/tasks'' (res_status res) other_hint))))
       \<and> (respond b (url env (''/tasks/'' @ string_of_int taskId)) (updateTask_options b patch) = Inr res
            \<longrightarrow> fst (updateTask env taskId patch b)
                = (if ok res
                   then Inl (Error (invalid_json_message ''PUT'' (''/tasks/'' @ string_of_int taskId)))
                   else Inl (Error (status_message ''PUT'' (''/tasks/'' @ string_of_int taskId)
                                      (res_status res) other_hint))))
       \<and> (respond b (url env (''/tasks/'' @ string_of_int taskId @ ''/toggle'')) toggleTask_options = Inr res
            \<longrightarrow> fst (toggleTask env taskId b)
                = (if ok res
                   then Inl (Error (invalid_json_message ''POST''
                                      (''/tasks/'' @ string_of_int taskId @ ''/toggle'')))
                   else Inl (Error (status_message ''POST'' (''/tasks/'' @ string_of_int taskId @ ''/toggle'')
                                      (res_status res) other_hint))))
       \<and> js_includes (invalid_json_message method path) ''Invalid JSON response''"
proof -
  have s: "safeReadBody res = parse_error_value (case res_text res of None \<Rightarrow> [] | Some t \<Rightarrow> t) e"
    using assms by (rule safeReadBody_parse_failure)
  have n: "normalizeResponse m p res =
           (if ok res then Inl (Error (invalid_json_message m p))
            else Inl (Error (status_message m p (res_status res) other_hint)))" for m p
    using assms by (rule normalize_parse_failure_any)
  have l: "respond b (url env ''/tasks'') no_options = Inr res
            \<longrightarrow> fst (listTasks env b)
                = (if ok res then Inl (Error (invalid_json_message ''GET'' ''/tasks''))
                   else Inl (Error (status_message ''GET'' ''/tasks'' (res_status res) other_hint)))"
    by (simp add: listTasks_outcome n)
  have c: "respond b (url env ''/tasks'') (createTask_options b title) = Inr res
            \<longrightarrow> fst (createTask env title b)
                = (if ok res then Inl (Error (invalid_json_message ''POST'' ''/tasks''))
                   else Inl (Error (status_message ''POST'' ''/tasks'' (res_status res) other_hint)))"
    by (simp add: createTask_outcome n)
  have u: "respond b (url env (''/tasks/'' @ string_of_int taskId)) (updateTask_options b patch) = Inr res
            \<longrightarrow> fst (updateTask env taskId patch b)
                = (if ok res
                   then Inl (Error (invalid_json_message ''PUT'' (''/tasks/'' @ string_of_int taskId)))
                   else Inl (Error (status_message ''PUT'' (''/tasks/'' @ string_of_int taskId)
                                      (res_status res) other_hint)))"
    by (simp add: updateTask_outcome n)
  have t: "respond b (url env (''/tasks/'' @ string_of_int taskId @ ''/toggle'')) toggleTask_options = Inr res
            \<longrightarrow> fst (toggleTask env taskId b)
                = (if ok res
                   then Inl (Error (invalid_json_message ''POST''
                                      (''/tasks/'' @ string_of_int taskId @ ''/toggle'')))
                   else Inl (Error (status_message ''POST'' (''/tasks/'' @ string_of_int taskId @ ''/toggle'')
                                      (res_status res) other_hint)))"
    by (simp add: toggleTask_outcome n)
  from s l c u t invalid_json_message_includes [of "method" path] show ?thesis by blast
qed

theorem invalid_json_success_fails_witness:
  "declares_json \<lparr>res_status = 200, res_content_type = Some ''application/json'',
       res_json = Inl ''SyntaxError: Unexpected token'', res_text = None\<rparr>
   \<and> ok \<lparr>res_status = 200, res_content_type = Some ''application/json'',
       res_json = Inl ''SyntaxError: Unexpected token'', res_text = None\<rparr>
   \<and> safeReadBody \<lparr>res_status = 200, res_content_type = Some ''application/json'',
       res_json = Inl ''SyntaxError: Unexpected token'', res_text = None\<rparr>
       = JObj [(''__parse_error'', JBool True), (''__raw'', JStr []),
               (''__error'', JStr ''SyntaxError: Unexpected token'')]
   \<and> fst (listTasks no_env
         (answering \<lparr>res_status = 200, res_content_type = Some ''application/json'',
            res_json = Inl ''SyntaxError: Unexpected token'', res_text = None\<rparr>))
       = Inl (Error ''Invalid JSON response for GET /tasks. Check API base URL configuration.'')"
proof -
  let ?res = "\<lparr>res_status = 200, res_content_type = Some ''application/json'',
       res_json = Inl ''SyntaxError: Unexpected token'', res_text = None\<rparr>"
  have o: "ok ?res" by (simp add: ok_def)
  have j: "declares_json ?res"
    by (simp add: declares_json_def is_json_content_type_def or_else_def toLowerCase_def
          char_to_lower_def)
  have p: "res_json ?res = Inl ''SyntaxError: Unexpected token''" by simp
  have a: "respond (answering ?res) (url no_env ''/tasks'') no_options = Inr ?res"
    by (simp add: answering_def)
  note w = invalid_json_success_fails [OF j p, of "answering ?res" no_env]
  from w have s: "safeReadBody ?res
       = JObj [(''__parse_error'', JBool True), (''__raw'', JStr []),
               (''__error'', JStr ''SyntaxError: Unexpected token'')]"
    by (simp add: parse_error_value_def)
  from w a o have "fst (listTasks no_env (answering ?res))
       = Inl (Error (invalid_json_message ''GET'' ''/tasks''))"
    by simp
  then have r: "fst (listTasks no_env (answering ?res))
       = Inl (Error ''Invalid JSON response for GET /tasks. Check API base URL configuration.'')"
    by (simp add: invalid_json_message_def)
  from j o s r show ?thesis by blast
qed



text \<open>
  C7.  \<^verbatim>\<open>deleteTask\<close> succeeds with no value for every response with a status from
  200 to 299, whatever its headers and body are.  For any other status it fails with the
  message that the other operations give for method \<^verbatim>\<open>DELETE\<close> and the path
  \<^verbatim>\<open>/tasks/{id}\<close>: method, path, status, and the hint chosen from the captured body.
\<close>

theorem delete_outcome:
  assumes "respond b (url env (''/tasks/'' @ string_of_int taskId)) deleteTask_options = Inr res"
  shows "(ok res \<longrightarrow> fst (deleteTask env taskId b) = Inr ())
       \<and> (\<not> ok res \<longrightarrow>
            fst (deleteTask env taskId b)
              = Inl (Error (status_message ''DELETE'' (''/tasks/'' @ string_of_int taskId) (res_status res)
                              (if html_body (safeReadBody res) then html_hint else other_hint)))
            \<and> normalizeResponse ''DELETE'' (''/tasks/'' @ string_of_int taskId) res
              = Inl (Error (status_message ''DELETE'' (''/tasks/'' @ string_of_int taskId) (res_status res)
                              (if html_body (safeReadBody res) then html_hint else other_hint))))"
  using assms by (simp add: deleteTask_outcome helpful_message normalize_not_ok)

theorem delete_outcome_witness:
  "ok \<lparr>res_status = 204, res_content_type = None,
       res_json = Inl ''SyntaxError: Unexpected end of JSON input'', res_text = Some []\<rparr>
   \<and> fst (deleteTask no_env 5
         (answering \<lparr>res_status = 204, res_content_type = None,
            res_json = Inl ''SyntaxError: Unexpected end of JSON input'', res_text = Some []\<rparr>))
       = Inr ()
   \<and> \<not> ok \<lparr>res_status = 500, res_content_type = Some ''text/html'',
       res_json = Inl ''SyntaxError'', res_text = Some ''<!DOCTYPE html><title>Error</title>''\<rparr>
   \<and> fst (deleteTask no_env 5
         (answering \<lparr>res_status = 500, res_content_type = Some ''text/html'',
            res_json = Inl ''SyntaxError'', res_text = Some ''<!DOCTYPE html><title>Error</title>''\<rparr>))
       = Inl (Error ''DELETE /tasks/5 failed (500). Received HTML instead of JSON. Check API base URL configuration.'')"
proof -
  let ?gone = "\<lparr>res_status = 204, res_content_type = None,
       res_json = Inl ''SyntaxError: Unexpected end of JSON input'', res_text = Some []\<rparr>"
  let ?bad = "\<lparr>res_status = 500, res_content_type = Some ''text/html'',
       res_json = Inl ''SyntaxError'', res_text = Some ''<!DOCTYPE html><title>Error</title>''\<rparr>"
  have five: "string_of_int 5 = ''5''" by code_simp
  have digits: "digits_of_nat 500 = ''500''" by code_simp
  have o: "ok ?gone" by (simp add: ok_def)
  have a: "respond (answering ?gone) (url no_env (''/tasks/'' @ string_of_int 5)) deleteTask_options
           = Inr ?gone"
    by (simp add: answering_def)
  from delete_outcome [OF a] o have r1: "fst (deleteTask no_env 5 (answering ?gone)) = Inr ()"
    by blast
  have n: "\<not> ok ?bad" by (simp add: ok_def)
  have a': "respond (answering ?bad) (url no_env (''/tasks/'' @ string_of_int 5)) deleteTask_options
           = Inr ?bad"
    by (simp add: answering_def)
  have j: "\<not> declares_json ?bad"
    by (simp add: declares_json_def is_json_content_type_def or_else_def toLowerCase_def
          char_to_lower_def)
  have "prefix ''<!DOCTYPE'' ''<!DOCTYPE html><title>Error</title>''" by simp
  then have h: "html_body (safeReadBody ?bad)"
    using j by (simp add: safeReadBody_text doctype_survives_trim)
  from delete_outcome [OF a'] n
  have "fst (deleteTask no_env 5 (answering ?bad))
      = Inl (Error (status_message ''DELETE'' (''/tasks/'' @ string_of_int 5) (res_status ?bad)
                      (if html_body (safeReadBody ?bad) then html_hint else other_hint)))"
    by blast
  then have r2: "fst (deleteTask no_env 5 (answering ?bad))
      = Inl (Error ''DELETE /tasks/5 failed (500). Received HTML instead of JSON. Check API base URL configuration.'')"
    by (simp add: h five digits status_message_def html_hint_def)
  from o r1 n r2 show ?thesis by blast
qed

text \<open>
  C8.  The base URL is the first set, non-empty value of \<^verbatim>\<open>REACT_APP_API_BASE\<close>,
  \<^verbatim>\<open>REACT_APP_API_BASE_URL\<close> (in this order), without its final slash when it ends
  with one; it is the empty string when neither variable is set, and then a request URL is
  the path alone.  Each of the five operations sends exactly one request, to the base URL
  followed by its path.
\<close>

theorem base_url_resolution:
  "(\<forall>s. first_non_empty [env ''REACT_APP_API_BASE'', env ''REACT_APP_API_BASE_URL''] = s @ ''/''
        \<longrightarrow> API_BASE env = s)
   \<and> (\<not> suffix ''/'' (first_non_empty [env ''REACT_APP_API_BASE'', env ''REACT_APP_API_BASE_URL''])
        \<longrightarrow> API_BASE env =
            first_non_empty [env ''REACT_APP_API_BASE'', env ''REACT_APP_API_BASE_URL''])
   \<and> (env ''REACT_APP_API_BASE'' = None \<and> env ''REACT_APP_API_BASE_URL'' = None
        \<longrightarrow> API_BASE env = [] \<and> url env path = path)
   \<and> sent (snd (listTasks env b)) = sent b @ [(API_BASE env @ ''/tasks'', no_options)]
   \<and> sent (snd (createTask env title b)) =
       sent b @ [(API_BASE env @ ''/tasks'', createTask_options b title)]
   \<and> sent (snd (updateTask env taskId patch b)) =
       sent b @ [(API_BASE env @ ''/tasks/'' @ string_of_int taskId, updateTask_options b patch)]
   \<and> sent (snd (toggleTask env taskId b)) =
       sent b @ [(API_BASE env @ ''/tasks/'' @ string_of_int taskId @ ''/toggle'', toggleTask_options)]
   \<and> sent (snd (deleteTask env taskId b)) =
       sent b @ [(API_BASE env @ ''/tasks/'' @ string_of_int taskId, deleteTask_options)]"
proof -
  let ?chosen = "first_non_empty [env ''REACT_APP_API_BASE'', env ''REACT_APP_API_BASE_URL'']"
  have base: "API_BASE env = strip_trailing_slash ?chosen"
    by (simp only: API_BASE_def first_non_empty_two)
  have slash: "\<forall>s. ?chosen = s @ ''/'' \<longrightarrow> API_BASE env = s"
    by (simp add: base strip_trailing_slash_snoc)
  have plain: "\<not> suffix ''/'' ?chosen \<longrightarrow> API_BASE env = ?chosen"
    by (simp add: base strip_trailing_slash_other)
  have unset: "env ''REACT_APP_API_BASE'' = None \<and> env ''REACT_APP_API_BASE_URL'' = None
        \<longrightarrow> API_BASE env = [] \<and> url env path = path"
    by (simp add: url_def API_BASE_def or_else_def strip_trailing_slash_def)
  have l: "sent (snd (listTasks env b)) = sent b @ [(API_BASE env @ ''/tasks'', no_options)]"
    by (simp add: listTasks_def requestJson_sent url_def)
  have c: "sent (snd (createTask env title b)) =
       sent b @ [(API_BASE env @ ''/tasks'', createTask_options b title)]"
    by (simp add: createTask_def requestJson_sent url_def)
  have u: "sent (snd (updateTask env taskId patch b)) =
       sent b @ [(API_BASE env @ ''/tasks/'' @ string_of_int taskId, updateTask_options b patch)]"
    by (simp add: updateTask_def requestJson_sent url_def)
  have t: "sent (snd (toggleTask env taskId b)) =
       sent b @ [(API_BASE env @ ''/tasks/'' @ string_of_int taskId @ ''/toggle'', toggleTask_options)]"
    by (simp add: toggleTask_def requestJson_sent url_def)
  have d: "sent (snd (deleteTask env taskId b)) =
       sent b @ [(API_BASE env @ ''/tasks/'' @ string_of_int taskId, deleteTask_options)]"
    by (simp add: deleteTask_sent url_def)
  from slash plain unset l c u t d show ?thesis by blast
qed

theorem base_url_resolution_witness:
  "first_non_empty
     [env_of [(''REACT_APP_API_BASE'', []), (''REACT_APP_API_BASE_URL'', ''http://localhost:3001/'')]
        ''REACT_APP_API_BASE'',
      env_of [(''REACT_APP_API_BASE'', []), (''REACT_APP_API_BASE_URL'', ''http://localhost:3001/'')]
        ''REACT_APP_API_BASE_URL'']
     = ''http://localhost:3001'' @ ''/''
   \<and> API_BASE (env_of [(''REACT_APP_API_BASE'', []), (''REACT_APP_API_BASE_URL'', ''http://localhost:3001/'')])
     = ''http://localhost:3001''
   \<and> no_env ''REACT_APP_API_BASE'' = None \<and> no_env ''REACT_APP_API_BASE_URL'' = None
   \<and> API_BASE no_env = [] \<and> url no_env ''/tasks'' = ''/tasks''"
proof -
  let ?env = "env_of [(''REACT_APP_API_BASE'', []), (''REACT_APP_API_BASE_URL'', ''http://localhost:3001/'')]"
  have chosen: "first_non_empty [?env ''REACT_APP_API_BASE'', ?env ''REACT_APP_API_BASE_URL'']
     = ''http://localhost:3001'' @ ''/''"
    by (simp add: env_of_def)
  have unset: "no_env ''REACT_APP_API_BASE'' = None \<and> no_env ''REACT_APP_API_BASE_URL'' = None"
    by (simp add: no_env_def)
  from base_url_resolution [of ?env] chosen
  have "API_BASE ?env = ''http://localhost:3001''" by blast
  moreover from base_url_resolution [of no_env "''/tasks''"] unset
  have "API_BASE no_env = [] \<and> url no_env ''/tasks'' = ''/tasks''" by blast
  ultimately show ?thesis using chosen unset by blast
qed

text \<open>
  C9.  When the operation a handler awaits fails, the handler leaves the task list as it
  was: of the whole state it changes the error message only, which becomes the message of
  the failure (or the handler's fallback when that message is empty).  The add and
  save-edit handlers, which return before calling the operation when the trimmed title is
  empty, then change nothing at all.
\<close>

theorem failed_operation_keeps_tasks:
  "(createTask_op (trim (newTitle st)) = Inl e \<longrightarrow>
      tasks (handleAdd createTask_op st) = tasks st
      \<and> handleAdd createTask_op st
          = (if trim (newTitle st) = [] then st
             else st\<lparr>error := or_else (Some (message e)) ''Failed to create task.''\<rparr>))
   \<and> (toggleTask_op taskId = Inl e \<longrightarrow>
      tasks (handleToggle toggleTask_op taskId st) = tasks st
      \<and> handleToggle toggleTask_op taskId st
          = st\<lparr>error := or_else (Some (message e)) ''Failed to toggle task.''\<rparr>)
   \<and> (updateTask_op taskId (JObj [(''title'', JStr (trim (editingTitle st)))]) = Inl e \<longrightarrow>
      tasks (saveEdit updateTask_op taskId st) = tasks st
      \<and> saveEdit updateTask_op taskId st
          = (if trim (editingTitle st) = [] then st
             else st\<lparr>error := or_else (Some (message e)) ''Failed to update task.''\<rparr>))
   \<and> (deleteTask_op taskId = Inl e \<longrightarrow>
      tasks (handleDelete deleteTask_op taskId st) = tasks st
      \<and> handleDelete deleteTask_op taskId st
          = st\<lparr>error := or_else (Some (message e)) ''Failed to delete task.''\<rparr>)"
proof -
  have add: "createTask_op (trim (newTitle st)) = Inl e \<longrightarrow>
      tasks (handleAdd createTask_op st) = tasks st
      \<and> handleAdd createTask_op st
          = (if trim (newTitle st) = [] then st
             else st\<lparr>error := or_else (Some (message e)) ''Failed to create task.''\<rparr>)"
    by (simp add: handleAdd_def Let_def)
  have toggle: "toggleTask_op taskId = Inl e \<longrightarrow>
      tasks (handleToggle toggleTask_op taskId st) = tasks st
      \<and> handleToggle toggleTask_op taskId st
          = st\<lparr>error := or_else (Some (message e)) ''Failed to toggle task.''\<rparr>"
    by (simp add: handleToggle_def Let_def)
  have save: "updateTask_op taskId (JObj [(''title'', JStr (trim (editingTitle st)))]) = Inl e \<longrightarrow>
      tasks (saveEdit updateTask_op taskId st) = tasks st
      \<and> saveEdit updateTask_op taskId st
          = (if trim (editingTitle st) = [] then st
             else st\<lparr>error := or_else (Some (message e)) ''Failed to update task.''\<rparr>)"
    by (simp add: saveEdit_def Let_def)
  have delete: "deleteTask_op taskId = Inl e \<longrightarrow>
      tasks (handleDelete deleteTask_op taskId st) = tasks st
      \<and> handleDelete deleteTask_op taskId st
          = st\<lparr>error := or_else (Some (message e)) ''Failed to delete task.''\<rparr>"
    by (simp add: handleDelete_def Let_def)
  from add toggle save delete show ?thesis by blast
qed

theorem failed_operation_keeps_tasks_witness:
  "handleAdd (settled (Inl (Error ''POST /tasks failed (500). Unexpected response from server.'')))
     \<lparr>tasks = [\<lparr>task_id = 1, task_title = ''Walk dog'', task_is_completed = False\<rparr>],
      newTitle = ''Buy milk'', loading = False, error = [], editingId = None, editingTitle = []\<rparr>
   = \<lparr>tasks = [\<lparr>task_id = 1, task_title = ''Walk dog'', task_is_completed = False\<rparr>],
      newTitle = ''Buy milk'', loading = False,
      error = ''POST /tasks failed (500). Unexpected response from server.'',
      editingId = None, editingTitle = []\<rparr>
   \<and> tasks (handleDelete (settled (Inl (Rejected ''Failed to fetch''))) 1
        \<lparr>tasks = [\<lparr>task_id = 1, task_title = ''Walk dog'', task_is_completed = False\<rparr>],
         newTitle = ''Buy milk'', loading = False, error = [], editingId = None, editingTitle = []\<rparr>)
     = [\<lparr>task_id = 1, task_title = ''Walk dog'', task_is_completed = False\<rparr>]"
proof -
  let ?st = "\<lparr>tasks = [\<lparr>task_id = 1, task_title = ''Walk dog'', task_is_completed = False\<rparr>],
      newTitle = ''Buy milk'', loading = False, error = [], editingId = None, editingTitle = []\<rparr>"
  let ?e = "Error ''POST /tasks failed (500). Unexpected response from server.''"
  have t: "trim ''Buy milk'' = ''Buy milk''"
    by (simp add: trim_def is_js_space_def)
  have f: "settled (Inl ?e) (trim (newTitle ?st)) = (Inl ?e :: js_error + task)"
    by (simp only: settled_def)
  have g: "settled (Inl (Rejected ''Failed to fetch'')) (1::int) = (Inl (Rejected ''Failed to fetch'') :: js_error + unit)"
    by (simp add: settled_def)
  from failed_operation_keeps_tasks [of "settled (Inl ?e)" ?st ?e] f
  have "handleAdd (settled (Inl ?e)) ?st
          = (if trim (newTitle ?st) = [] then ?st
             else ?st\<lparr>error := or_else (Some (message ?e)) ''Failed to create task.''\<rparr>)"
    by blast
  then have r1: "handleAdd (settled (Inl ?e)) ?st
      = ?st\<lparr>error := ''POST /tasks failed (500). Unexpected response from server.''\<rparr>"
    by (simp add: t or_else_def)
  from failed_operation_keeps_tasks [of _ ?st "Rejected ''Failed to fetch''" _ 1 _
      "settled (Inl (Rejected ''Failed to fetch''))"] g
  have r2: "tasks (handleDelete (settled (Inl (Rejected ''Failed to fetch''))) 1 ?st) = tasks ?st"
    by blast
  from r1 r2 show ?thesis by simp
qed

text \<open>
  C10.  A response with a status from 200 to 299 and a JSON content type whose body
  parses to an object with a truthy \<^verbatim>\<open>__parse_error\<close> field is not returned: each of
  list, create, update and toggle fails with the message for invalid JSON.  Such a
  response exists, so the marker of a parse failure is not disjoint from server data.
\<close>

theorem sentinel_field_misclassified:
  assumes "ok res" and "declares_json res" and "res_json res = Inr (JObj kvs)"
    and "map_of kvs ''__parse_error'' = Some flag" and "truthy flag"
  shows "(respond b (url env ''/tasks'') no_options = Inr res
            \<longrightarrow> fst (listTasks env b) = Inl (Error (invalid_json_message ''GET'' ''/tasks'')))
       \<and> (respond b (url env ''/tasks'') (createTask_options b title) = Inr res
            \<longrightarrow> fst (createTask env title b) = Inl (Error (invalid_json_message ''POST'' ''/tasks'')))
       \<and> (respond b (url env (''/tasks/'' @ string_of_int taskId)) (updateTask_options b patch) = Inr res
            \<longrightarrow> fst (updateTask env taskId patch b)
                = Inl (Error (invalid_json_message ''PUT'' (''/tasks/'' @ string_of_int taskId))))
       \<and> (respond b (url env (''/tasks/'' @ string_of_int taskId @ ''/toggle'')) toggleTask_options = Inr res
            \<longrightarrow> fst (toggleTask env taskId b)
                = Inl (Error (invalid_json_message ''POST''
                                (''/tasks/'' @ string_of_int taskId @ ''/toggle''))))"
proof -
  from assms(4,5) have "has_parse_error (JObj kvs)"
    by (simp add: has_parse_error_def)
  with assms(1-3) have n: "normalizeResponse m p res = Inl (Error (invalid_json_message m p))" for m p
    by (simp add: normalize_json)
  show ?thesis
    by (simp add: listTasks_outcome createTask_outcome updateTask_outcome toggleTask_outcome n)
qed

theorem sentinel_field_misclassified_witness:
  "ok \<lparr>res_status = 200, res_content_type = Some ''application/json'',
       res_json = Inr (JObj [(''id'', JNum 1), (''__parse_error'', JBool True)]),
       res_text = None\<rparr>
   \<and> declares_json \<lparr>res_status = 200, res_content_type = Some ''application/json'',
       res_json = Inr (JObj [(''id'', JNum 1), (''__parse_error'', JBool True)]),
       res_text = None\<rparr>
   \<and> fst (toggleTask no_env 1
         (answering \<lparr>res_status = 200, res_content_type = Some ''application/json'',
            res_json = Inr (JObj [(''id'', JNum 1), (''__parse_error'', JBool True)]),
            res_text = None\<rparr>))
       = Inl (Error ''Invalid JSON response for POST /tasks/1/toggle. Check API base URL configuration.'')"
proof -
  let ?fields = "[(''id'', JNum 1), (''__parse_error'', JBool True)]"
  let ?res = "\<lparr>res_status = 200, res_content_type = Some ''application/json'',
       res_json = Inr (JObj ?fields), res_text = None\<rparr>"
  have o: "ok ?res" by (simp add: ok_def)
  have j: "declares_json ?res"
    by (simp add: declares_json_def is_json_content_type_def or_else_def toLowerCase_def
          char_to_lower_def)
  have p: "res_json ?res = Inr (JObj ?fields)" by simp
  have f: "map_of ?fields ''__parse_error'' = Some (JBool True)" by simp
  have t: "truthy (JBool True)" by simp
  have a: "respond (answering ?res) (url no_env (''/tasks/'' @ string_of_int 1 @ ''/toggle''))
             toggleTask_options = Inr ?res"
    by (simp add: answering_def)
  have d: "string_of_int 1 = ''1''" by code_simp
  from sentinel_field_misclassified [OF o j p f t, of "answering ?res" no_env _ 1] a
  have "fst (toggleTask no_env 1 (answering ?res))
       = Inl (Error (invalid_json_message ''POST'' (''/tasks/'' @ string_of_int 1 @ ''/toggle'')))"
    by blast
  then have r: "fst (toggleTask no_env 1 (answering ?res))
       = Inl (Error ''Invalid JSON response for POST /tasks/1/toggle. Check API base URL configuration.'')"
    by (simp add: invalid_json_message_def d)
  from o j r show ?thesis by blast
qed

end
